theory Spec2Isabelle
  imports Main
begin

section \<open>SuperMap.Format.JSON: the values it reads and writes\<close>

text \<open>
  The class of \<^verbatim>\<open>src/common/format/JSON.js\<close> serializes JavaScript values and
  delegates parsing to the host. The embedding fixes the JavaScript values it covers:

  \<^item> numbers are the non-finite ones and the integer-valued finite ones that print as a
    plain decimal (magnitude below \<open>10^21\<close>); fractions are outside the model;
  \<^item> strings are lists of code units below 256;
  \<^item> a Date is what its getters return (local fields for the class's own serializer,
    UTC fields for the host's \<^verbatim>\<open>toISOString\<close>), or the invalid date;
  \<^item> an array is the list of its elements, a hole being \<open>JUndefined\<close>;
  \<^item> an ordinary object is the list of its own enumerable properties in enumeration
    order (keys distinct) and the list of the enumerable properties it inherits;
  \<^item> \<open>JFunction\<close> is a function value; where the code would call it (as
    \<^verbatim>\<open>object.hasOwnProperty\<close> or, in the host serializer, as
    \<^verbatim>\<open>toJSON\<close>) it behaves as \<^verbatim>\<open>function(){}\<close> and returns undefined.
\<close>

datatype number = Finite int | NaN | PosInfinity | NegInfinity

record date =
  getFullYear :: int
  getMonth :: int
  getDate :: int
  getHours :: int
  getMinutes :: int
  getSeconds :: int
  getUTCFullYear :: int
  getUTCMonth :: int
  getUTCDate :: int
  getUTCHours :: int
  getUTCMinutes :: int
  getUTCSeconds :: int
  getUTCMilliseconds :: int

datatype jsval =
    JUndefined
  | JNull
  | JBoolean bool
  | JNumber number
  | JString string
  | JFunction
  | JDate "date option"
  | JArray "jsval list"
  | JObject "(string \<times> jsval) list" "(string \<times> jsval) list"

text \<open>Exceptions the modelled code can throw.\<close>

datatype exn = TypeError | SyntaxError

text \<open>What \<^verbatim>\<open>write\<close> hands back: a string, \<^verbatim>\<open>null\<close>, or (from the host
  serializer) \<^verbatim>\<open>undefined\<close>.\<close>

datatype json = Str string | Null | Undefined

text \<open>The instance: the fields of the class, and \<^verbatim>\<open>keepData\<close> and \<^verbatim>\<open>data\<close> of its
  parent class.\<close>

record JSONFormat =
  indent :: string
  space :: string
  newline :: string
  level :: int
  pretty :: bool
  nativeJSON :: bool
  keepData :: bool
  data :: jsval

definition typeof :: "jsval \<Rightarrow> string" where
  "typeof v = (case v of
      JUndefined \<Rightarrow> ''undefined''
    | JBoolean b \<Rightarrow> ''boolean''
    | JNumber n \<Rightarrow> ''number''
    | JString s \<Rightarrow> ''string''
    | JFunction \<Rightarrow> ''function''
    | _ \<Rightarrow> ''object'')"

text \<open>The keys of the \<^verbatim>\<open>serialize\<close> table: \<^verbatim>\<open>this.serialize[type]\<close> is truthy for these.\<close>

definition serialize_keys :: "string list" where
  "serialize_keys = [''object'', ''array'', ''string'', ''number'', ''boolean'', ''date'']"

subsection \<open>Numbers and characters of the host\<close>

definition dquote :: char where
  "dquote = CHR 0x22"

definition backslash :: char where
  "backslash = CHR 0x5C"

definition digit_char :: "nat \<Rightarrow> char" where
  "digit_char n = ''0123456789abcdefghijklmnopqrstuvwxyz'' ! n"

text \<open>\<^verbatim>\<open>Number.prototype.toString(radix)\<close> on a natural number, radix 2 to 36.\<close>

fun toString_radix :: "nat \<Rightarrow> nat \<Rightarrow> string" where
  "toString_radix r n =
     (if n < r \<or> r < 2 then [digit_char n]
      else toString_radix r (n div r) @ [digit_char (n mod r)])"

declare toString_radix.simps [simp del]

text \<open>\<^verbatim>\<open>String(number)\<close>.\<close>

definition to_String :: "number \<Rightarrow> string" where
  "to_String n = (case n of
      Finite i \<Rightarrow> (if i < 0 then ''-'' @ toString_radix 10 (nat (- i)) else toString_radix 10 (nat i))
    | NaN \<Rightarrow> ''NaN''
    | PosInfinity \<Rightarrow> ''Infinity''
    | NegInfinity \<Rightarrow> ''-Infinity'')"

definition isFinite :: "number \<Rightarrow> bool" where
  "isFinite n = (case n of Finite i \<Rightarrow> True | _ \<Rightarrow> False)"

text \<open>\<^verbatim>\<open>a < b\<close> and \<^verbatim>\<open>a + b\<close> on numbers.\<close>

fun js_less :: "number \<Rightarrow> number \<Rightarrow> bool" where
  "js_less (Finite a) (Finite b) = (a < b)"
| "js_less NaN _ = False"
| "js_less _ NaN = False"
| "js_less NegInfinity b = (b \<noteq> NegInfinity)"
| "js_less a PosInfinity = (a \<noteq> PosInfinity)"
| "js_less _ _ = False"

fun js_plus :: "number \<Rightarrow> number \<Rightarrow> number" where
  "js_plus (Finite a) (Finite b) = Finite (a + b)"
| "js_plus NaN _ = NaN"
| "js_plus _ NaN = NaN"
| "js_plus PosInfinity NegInfinity = NaN"
| "js_plus NegInfinity PosInfinity = NaN"
| "js_plus PosInfinity _ = PosInfinity"
| "js_plus _ PosInfinity = PosInfinity"
| "js_plus NegInfinity _ = NegInfinity"
| "js_plus _ NegInfinity = NegInfinity"

text \<open>A getter of a Date: \<^verbatim>\<open>NaN\<close> on the invalid date.\<close>

definition getter :: "(date \<Rightarrow> int) \<Rightarrow> date option \<Rightarrow> number" where
  "getter f d = (case d of None \<Rightarrow> NaN | Some r \<Rightarrow> Finite (f r))"

section \<open>The serializers of the class\<close>

subsection \<open>Whitespace helpers\<close>

definition writeIndent :: "JSONFormat \<Rightarrow> string" where
  "writeIndent this =
     concat (if pretty this then replicate (nat (level this)) (indent this) else [])"

definition writeNewline :: "JSONFormat \<Rightarrow> string" where
  "writeNewline this = (if pretty this then newline this else '''')"

definition writeSpace :: "JSONFormat \<Rightarrow> string" where
  "writeSpace this = (if pretty this then space this else '''')"

subsection \<open>serialize.string\<close>

text \<open>The table \<^verbatim>\<open>m\<close> of the two-character escapes.\<close>

definition m :: "char \<Rightarrow> string option" where
  "m b =
     (if b = CHR 0x08 then Some [backslash, CHR ''b'']
      else if b = CHR 0x09 then Some [backslash, CHR ''t'']
      else if b = CHR 0x0A then Some [backslash, CHR ''n'']
      else if b = CHR 0x0C then Some [backslash, CHR ''f'']
      else if b = CHR 0x0D then Some [backslash, CHR ''r'']
      else if b = dquote then Some [backslash, dquote]
      else if b = backslash then Some [backslash, backslash]
      else None)"

text \<open>The character class \<^verbatim>\<open>["\\\x00-\x1f]\<close> of both regular expressions.\<close>

definition offending :: "char \<Rightarrow> bool" where
  "offending b = (b = dquote \<or> b = backslash \<or> (of_char b :: nat) \<le> 0x1F)"

text \<open>The replacement function \<^verbatim>\<open>function (a, b)\<close> of \<^verbatim>\<open>string.replace\<close>.\<close>

definition replacement :: "char \<Rightarrow> string" where
  "replacement b =
     (case m b of
        Some c \<Rightarrow> c
      | None \<Rightarrow>
          (let c = (of_char b :: nat)
           in [backslash, CHR ''u'', CHR ''0'', CHR ''0''] @
              toString_radix 16 (c div 16) @ toString_radix 16 (c mod 16)))"

definition serialize_string :: "string \<Rightarrow> string" where
  "serialize_string string =
     (if list_ex offending string
      then [dquote] @ concat (map (\<lambda>b. if offending b then replacement b else [b]) string) @ [dquote]
      else [dquote] @ string @ [dquote])"

subsection \<open>serialize.number, serialize.boolean, serialize.date\<close>

definition serialize_number :: "number \<Rightarrow> string" where
  "serialize_number number = (if isFinite number then to_String number else ''null'')"

definition serialize_boolean :: "bool \<Rightarrow> string" where
  "serialize_boolean bool = (if bool then ''true'' else ''false'')"

text \<open>The local function \<^verbatim>\<open>format\<close>: at least two digits.\<close>

definition format :: "number \<Rightarrow> string" where
  "format number =
     (if js_less number (Finite 10) then ''0'' @ to_String number else to_String number)"

definition serialize_date :: "date option \<Rightarrow> string" where
  "serialize_date date =
     [dquote] @ to_String (getter getFullYear date) @ ''-'' @
     format (js_plus (getter getMonth date) (Finite 1)) @ ''-'' @
     format (getter getDate date) @ ''T'' @
     format (getter getHours date) @ '':'' @
     format (getter getMinutes date) @ '':'' @
     format (getter getSeconds date) @ [dquote]"

section \<open>The host's serializer\<close>

text \<open>
  \<^verbatim>\<open>JSON.stringify\<close> is not code of the class; when the instance detects it, \<^verbatim>\<open>write\<close>
  hands the whole value to it. It is modelled after ECMA-262 (\<^verbatim>\<open>SerializeJSONProperty\<close>,
  \<^verbatim>\<open>QuoteJSONString\<close>, \<^verbatim>\<open>Date.prototype.toJSON\<close> and \<^verbatim>\<open>toISOString\<close>) on the values of
  the model.
\<close>

definition pad_left :: "nat \<Rightarrow> string \<Rightarrow> string" where
  "pad_left w s = replicate (w - length s) (CHR ''0'') @ s"

definition UnicodeEscape :: "char \<Rightarrow> string" where
  "UnicodeEscape c = [backslash, CHR ''u''] @ pad_left 4 (toString_radix 16 (of_char c))"

definition quote_unit :: "char \<Rightarrow> string" where
  "quote_unit c =
     (if c = CHR 0x08 then [backslash, CHR ''b'']
      else if c = CHR 0x09 then [backslash, CHR ''t'']
      else if c = CHR 0x0A then [backslash, CHR ''n'']
      else if c = CHR 0x0C then [backslash, CHR ''f'']
      else if c = CHR 0x0D then [backslash, CHR ''r'']
      else if c = dquote then [backslash, dquote]
      else if c = backslash then [backslash, backslash]
      else if (of_char c :: nat) < 0x20 then UnicodeEscape c
      else [c])"

definition QuoteJSONString :: "string \<Rightarrow> string" where
  "QuoteJSONString s = [dquote] @ concat (map quote_unit s) @ [dquote]"

definition iso_year :: "int \<Rightarrow> string" where
  "iso_year y =
     (if 0 \<le> y \<and> y \<le> 9999 then pad_left 4 (toString_radix 10 (nat y))
      else (if y < 0 then ''-'' else ''+'') @ pad_left 6 (toString_radix 10 (nat \<bar>y\<bar>)))"

definition pad_int :: "nat \<Rightarrow> int \<Rightarrow> string" where
  "pad_int w i = pad_left w (toString_radix 10 (nat i))"

definition toISOString :: "date \<Rightarrow> string" where
  "toISOString d =
     iso_year (getUTCFullYear d) @ ''-'' @ pad_int 2 (getUTCMonth d + 1) @ ''-'' @
     pad_int 2 (getUTCDate d) @ ''T'' @ pad_int 2 (getUTCHours d) @ '':'' @
     pad_int 2 (getUTCMinutes d) @ '':'' @ pad_int 2 (getUTCSeconds d) @ ''.'' @
     pad_int 3 (getUTCMilliseconds d) @ ''Z''"

text \<open>\<^verbatim>\<open>Array.prototype.join\<close> on strings.\<close>

fun join :: "string \<Rightarrow> string list \<Rightarrow> string" where
  "join sep [] = []"
| "join sep [x] = x"
| "join sep (x # y # ys) = x @ sep @ join sep (y # ys)"

text \<open>\<^verbatim>\<open>SerializeJSONProperty\<close>: \<open>None\<close> is \<^verbatim>\<open>undefined\<close>. A Date has the built-in
  \<^verbatim>\<open>toJSON\<close>; an ordinary object is asked for a callable \<^verbatim>\<open>toJSON\<close> first.\<close>

fun SerializeJSONProperty :: "jsval \<Rightarrow> string option" where
  "SerializeJSONProperty JUndefined = None"
| "SerializeJSONProperty JFunction = None"
| "SerializeJSONProperty JNull = Some ''null''"
| "SerializeJSONProperty (JBoolean b) = Some (if b then ''true'' else ''false'')"
| "SerializeJSONProperty (JNumber n) = Some (if isFinite n then to_String n else ''null'')"
| "SerializeJSONProperty (JString s) = Some (QuoteJSONString s)"
| "SerializeJSONProperty (JDate d) =
     (case d of
        None \<Rightarrow> Some ''null''
      | Some r \<Rightarrow> Some (QuoteJSONString (toISOString r)))"
| "SerializeJSONProperty (JArray xs) =
     Some (''['' @
       join '','' (map (\<lambda>x. case SerializeJSONProperty x of None \<Rightarrow> ''null'' | Some s \<Rightarrow> s) xs) @
       '']'')"
| "SerializeJSONProperty (JObject own inherited) =
     (case map_of (own @ inherited) ''toJSON'' of
        Some JFunction \<Rightarrow> None
      | _ \<Rightarrow>
        Some (''{'' @
          join '',''
            (concat (map (\<lambda>p. case SerializeJSONProperty (snd p) of
                                None \<Rightarrow> []
                              | Some s \<Rightarrow> [QuoteJSONString (fst p) @ '':'' @ s]) own)) @
          ''}''))"

definition JSON_stringify :: "jsval \<Rightarrow> json" where
  "JSON_stringify v = (case SerializeJSONProperty v of None \<Rightarrow> Undefined | Some s \<Rightarrow> Str s)"

section \<open>write and the recursive serializers\<close>

type_synonym props = "(string \<times> jsval) list"

text \<open>\<^verbatim>\<open>object.hasOwnProperty(key)\<close>: the property is looked up on the object first, so an
  enumerable property of that name shadows the built-in method. A value that is not
  callable throws; \<open>JFunction\<close> returns undefined, which is falsy.\<close>

definition hasOwnProperty :: "props \<Rightarrow> props \<Rightarrow> string \<Rightarrow> exn + bool" where
  "hasOwnProperty own inherited key =
     (case map_of (own @ inherited) ''hasOwnProperty'' of
        None \<Rightarrow> Inr (key \<in> set (map fst own))
      | Some JFunction \<Rightarrow> Inr False
      | Some _ \<Rightarrow> Inl TypeError)"

text \<open>The properties \<^verbatim>\<open>for (key in object)\<close> visits, each with \<^verbatim>\<open>object[key]\<close>: the own ones,
  then the inherited ones that no own property shadows.\<close>

definition for_in :: "props \<Rightarrow> props \<Rightarrow> props" where
  "for_in own inherited = own @ filter (\<lambda>p. fst p \<notin> set (map fst own)) inherited"

text \<open>The enumerable properties of a string primitive: its indices.\<close>

definition index_props :: "string \<Rightarrow> props" where
  "index_props s = zip (map (toString_radix 10) [0..<length s]) (map (\<lambda>c. JString [c]) s)"

subsection \<open>A measure for the recursion\<close>

text \<open>\<open>cost v\<close> bounds the calls \<^verbatim>\<open>serialize.object\<close> makes on \<open>v\<close>; writing a string makes
  no further call.\<close>

fun is_str :: "jsval \<Rightarrow> bool" where
  "is_str (JString s) = True"
| "is_str _ = False"

fun cost :: "jsval \<Rightarrow> nat" where
  "cost (JArray xs) = 2 + sum_list (map (\<lambda>x. Suc (if is_str x then 0 else Suc (cost x))) xs)"
| "cost (JObject own inherited) =
     2 + sum_list (map (\<lambda>p. Suc (if is_str (snd p) then 0 else Suc (cost (snd p)))) own)
       + sum_list (map (\<lambda>p. Suc (if is_str (snd p) then 0 else Suc (cost (snd p)))) inherited)"
| "cost (JString s) = 2 + length s"
| "cost _ = 2"

definition wcost :: "jsval \<Rightarrow> nat" where
  "wcost v = (if is_str v then 0 else Suc (cost v))"

definition loopcost :: "props \<Rightarrow> nat" where
  "loopcost ps = sum_list (map (\<lambda>p. Suc (wcost (snd p))) ps)"

definition acost :: "jsval list \<Rightarrow> nat" where
  "acost xs = sum_list (map (\<lambda>x. Suc (wcost x)) xs)"

lemma cost_JArray: "cost (JArray xs) = 2 + acost xs"
  by (simp add: acost_def wcost_def)

lemma cost_JObject: "cost (JObject own inherited) = 2 + loopcost own + loopcost inherited"
  by (simp add: loopcost_def wcost_def)

lemma loopcost_filter: "loopcost (filter P ps) \<le> loopcost ps"
  by (induction ps) (simp_all add: loopcost_def)

lemma loopcost_for_in: "loopcost (for_in own inherited) \<le> loopcost own + loopcost inherited"
  using loopcost_filter [of _ inherited] by (simp add: for_in_def loopcost_def)

lemma loopcost_zip_str: "length ks = length s \<Longrightarrow> loopcost (zip ks (map (\<lambda>c. JString [c]) s)) = length s"
  by (induction ks s rule: list_induct2) (simp_all add: loopcost_def wcost_def)

lemma loopcost_index_props: "loopcost (index_props s) = length s"
  by (simp add: index_props_def loopcost_zip_str)

lemma loopcost_Cons: "loopcost ((k, v) # ps) = Suc (wcost v) + loopcost ps"
  by (simp add: loopcost_def)

lemma acost_Cons: "acost (x # xs) = Suc (wcost x) + acost xs"
  by (simp add: acost_def)

lemma loopcost_for_in_less:
  "loopcost (for_in own inherited) < Suc (loopcost own + loopcost inherited)"
  using loopcost_for_in [of own inherited] by simp

lemma acost_Nil: "acost [] = 0" and loopcost_Nil: "loopcost [] = 0"
  by (simp_all add: acost_def loopcost_def)

subsection \<open>The recursion\<close>

text \<open>
  \<^verbatim>\<open>write\<close> and the serializers that call it back. Every function takes the instance
  and returns it with its result, since \<^verbatim>\<open>pretty\<close> and \<^verbatim>\<open>level\<close> are assigned on the way;
  a serializer returns \<open>Inl\<close> when it throws, and the instance it returns then is the one
  the throw leaves behind. \<^verbatim>\<open>pieces\<close> is the array joined at the end.
\<close>

function write_json :: "jsval \<Rightarrow> bool \<Rightarrow> JSONFormat \<Rightarrow> json \<times> JSONFormat"
  and serialize_object :: "jsval \<Rightarrow> JSONFormat \<Rightarrow> (exn + string) \<times> JSONFormat"
  and serialize_plain :: "props \<Rightarrow> props \<Rightarrow> JSONFormat \<Rightarrow> (exn + string) \<times> JSONFormat"
  and object_loop ::
    "props \<Rightarrow> props \<Rightarrow> props \<Rightarrow> bool \<Rightarrow> string list \<Rightarrow> JSONFormat \<Rightarrow> (exn + string list) \<times> JSONFormat"
  and serialize_array :: "jsval list \<Rightarrow> JSONFormat \<Rightarrow> (exn + string) \<times> JSONFormat"
  and array_loop :: "jsval list \<Rightarrow> nat \<Rightarrow> string list \<Rightarrow> JSONFormat \<Rightarrow> string list \<times> JSONFormat"
where
  "write_json v p this =
     (let this1 = this\<lparr>pretty := p\<rparr>
      in if typeof v \<in> set serialize_keys then
           (if \<not> pretty this1 \<and> nativeJSON this1 then (JSON_stringify v, this1)
            else
              (case (case v of
                       JString s \<Rightarrow> (Inr (serialize_string s), this1)
                     | JNumber n \<Rightarrow> (Inr (serialize_number n), this1)
                     | JBoolean b \<Rightarrow> (Inr (serialize_boolean b), this1)
                     | _ \<Rightarrow> serialize_object v this1) of
                 (Inr s, this2) \<Rightarrow> (Str s, this2)
               | (Inl err, this2) \<Rightarrow> (Null, this2)))
         else (Null, this1))"
| "serialize_object JNull this = (Inr ''null'', this)"
| "serialize_object JUndefined this = (Inr ''null'', this)"
| "serialize_object (JDate d) this = (Inr (serialize_date d), this)"
| "serialize_object (JArray xs) this = serialize_array xs this"
| "serialize_object (JObject own inherited) this = serialize_plain own inherited this"
| "serialize_object (JString s) this = serialize_plain (index_props s) [] this"
| "serialize_object (JBoolean b) this = serialize_plain [] [] this"
| "serialize_object (JNumber n) this = serialize_plain [] [] this"
| "serialize_object JFunction this = serialize_plain [] [] this"
| "serialize_plain own inherited this =
     (let this1 = this\<lparr>level := level this + 1\<rparr>
      in case object_loop own inherited (for_in own inherited) False [''{''] this1 of
           (Inl err, this2) \<Rightarrow> (Inl err, this2)
         | (Inr pieces, this2) \<Rightarrow>
             (let this3 = this2\<lparr>level := level this2 - 1\<rparr>
              in (Inr (concat (pieces @ [writeNewline this3, writeIndent this3, ''}''])), this3)))"
| "object_loop own inherited [] addComma pieces this = (Inr pieces, this)"
| "object_loop own inherited ((key, val) # rest) addComma pieces this =
     (case hasOwnProperty own inherited key of
        Inl err \<Rightarrow> (Inl err, this)
      | Inr False \<Rightarrow> object_loop own inherited rest addComma pieces this
      | Inr True \<Rightarrow>
          (case write_json (JString key) (pretty this) this of
             (keyJSON, this1) \<Rightarrow>
               (case write_json val (pretty this1) this1 of
                  (valueJSON, this2) \<Rightarrow>
                    (case (keyJSON, valueJSON) of
                       (Str k, Str j) \<Rightarrow>
                         object_loop own inherited rest True
                           (pieces @ (if addComma then ['',''] else []) @
                              [writeNewline this2, writeIndent this2, k, '':'', writeSpace this2, j])
                           this2
                     | _ \<Rightarrow> object_loop own inherited rest addComma pieces this2))))"
| "serialize_array array this =
     (let this1 = this\<lparr>level := level this + 1\<rparr>
      in case array_loop array 0 [''[''] this1 of
           (pieces, this2) \<Rightarrow>
             (let this3 = this2\<lparr>level := level this2 - 1\<rparr>
              in (Inr (concat (pieces @ [writeNewline this3, writeIndent this3, '']''])), this3)))"
| "array_loop [] i pieces this = (pieces, this)"
| "array_loop (x # xs) i pieces this =
     (case write_json x (pretty this) this of
        (Str j, this1) \<Rightarrow>
          array_loop xs (i + 1)
            (pieces @ (if i > 0 then ['',''] else []) @ [writeNewline this1, writeIndent this1, j])
            this1
      | (_, this1) \<Rightarrow> array_loop xs (i + 1) pieces this1)"
  by pat_completeness auto

termination write_json
  by (relation "measure (\<lambda>x. case x of
          Inl (Inl (v, p, t)) \<Rightarrow> wcost v
        | Inl (Inr (Inl (v, t))) \<Rightarrow> cost v
        | Inl (Inr (Inr (own, inherited, t))) \<Rightarrow> Suc (loopcost own + loopcost inherited)
        | Inr (Inl (own, inherited, ps, a, pcs, t)) \<Rightarrow> loopcost ps
        | Inr (Inr (Inl (xs, t))) \<Rightarrow> Suc (acost xs)
        | Inr (Inr (Inr (xs, i, pcs, t))) \<Rightarrow> acost xs)")
     (simp_all add: wcost_def cost_JObject cost_JArray loopcost_index_props loopcost_Cons
        acost_Cons loopcost_for_in_less acost_Nil loopcost_Nil del: cost.simps(1,2))

text \<open>The equations of the functions that match on no constructor are unfolded on request.\<close>

declare write_json.simps [simp del] serialize_plain.simps [simp del] serialize_array.simps [simp del]

section \<open>read and the host's parser\<close>

text \<open>
  \<^verbatim>\<open>read\<close> hands the text and the filter to the host's \<^verbatim>\<open>JSON.parse\<close> inside a
  \<^verbatim>\<open>try\<close> whose handler is empty. The host function is a parameter: it returns a value or
  throws. The result of \<^verbatim>\<open>read\<close> is typed as a completion too, so that "does not throw"
  is a statement about it.
\<close>

definition read ::
  "(string \<Rightarrow> 'f \<Rightarrow> exn + jsval) \<Rightarrow> string \<Rightarrow> 'f \<Rightarrow> JSONFormat \<Rightarrow> (exn + jsval) \<times> JSONFormat" where
  "read JSON_parse json filter' this =
     (let object = (if nativeJSON this
                    then (case JSON_parse json filter' of Inr parsed \<Rightarrow> parsed | Inl e \<Rightarrow> JUndefined)
                    else JUndefined);
          this1 = (if keepData this then this\<lparr>data := object\<rparr> else this)
      in (Inr object, this1))"

subsection \<open>A reference for JSON.parse\<close>

text \<open>
  The host's parser after ECMA-262 and the JSON grammar, on the texts whose values are in
  the model: number tokens are integers (a fraction or an exponent denotes a number
  outside the model and is not accepted), and an escape \<^verbatim>\<open>\uXXXX\<close> stays below 256.
  The recursion is bounded by fuel; \<^verbatim>\<open>parse_json\<close> supplies more than the length of the
  text, and every call consumes a character.
\<close>

definition is_ws :: "char \<Rightarrow> bool" where
  "is_ws c = (c = CHR 0x09 \<or> c = CHR 0x0A \<or> c = CHR 0x0D \<or> c = CHR 0x20)"

definition skip_ws :: "string \<Rightarrow> string" where
  "skip_ws cs = dropWhile is_ws cs"

definition is_digit :: "char \<Rightarrow> bool" where
  "is_digit c = (48 \<le> (of_char c :: nat) \<and> (of_char c :: nat) \<le> 57)"

definition digit_val :: "char \<Rightarrow> nat" where
  "digit_val c = of_char c - 48"

definition dec_val :: "string \<Rightarrow> nat" where
  "dec_val ds = foldl (\<lambda>a c. 10 * a + digit_val c) 0 ds"

definition hex_val :: "char \<Rightarrow> nat option" where
  "hex_val c =
     (let n = (of_char c :: nat)
      in if 48 \<le> n \<and> n \<le> 57 then Some (n - 48)
         else if 97 \<le> n \<and> n \<le> 102 then Some (n - 87)
         else if 65 \<le> n \<and> n \<le> 70 then Some (n - 55)
         else None)"

text \<open>The character an escape letter stands for.\<close>

definition unescape :: "char \<Rightarrow> char option" where
  "unescape e =
     (if e = dquote then Some dquote
      else if e = backslash then Some backslash
      else if e = CHR ''/'' then Some (CHR ''/'')
      else if e = CHR ''b'' then Some (CHR 0x08)
      else if e = CHR ''f'' then Some (CHR 0x0C)
      else if e = CHR ''n'' then Some (CHR 0x0A)
      else if e = CHR ''r'' then Some (CHR 0x0D)
      else if e = CHR ''t'' then Some (CHR 0x09)
      else None)"

text \<open>The characters of a string token after its opening quote, up to the closing one.\<close>

fun parse_chars :: "string \<Rightarrow> (string \<times> string) option" where
  "parse_chars [] = None"
| "parse_chars (c # cs) =
     (if c = dquote then Some ([], cs)
      else if c = backslash then
        (case cs of
           [] \<Rightarrow> None
         | e # cs1 \<Rightarrow>
             if e = CHR ''u'' then
               (case cs1 of
                  h1 # h2 # h3 # h4 # cs2 \<Rightarrow>
                    (case (hex_val h1, hex_val h2, hex_val h3, hex_val h4) of
                       (Some a, Some b, Some c', Some d) \<Rightarrow>
                         (let code = ((a * 16 + b) * 16 + c') * 16 + d
                          in if code < 256
                             then map_option (\<lambda>(s, r). (char_of code # s, r)) (parse_chars cs2)
                             else None)
                     | _ \<Rightarrow> None)
                | _ \<Rightarrow> None)
             else
               (case unescape e of
                  None \<Rightarrow> None
                | Some ch \<Rightarrow> map_option (\<lambda>(s, r). (ch # s, r)) (parse_chars cs1)))
      else if (of_char c :: nat) < 0x20 then None
      else map_option (\<lambda>(s, r). (c # s, r)) (parse_chars cs))"

text \<open>A number token: an optional minus sign, then \<^verbatim>\<open>0\<close> or digits that do not start with
  \<^verbatim>\<open>0\<close>.\<close>

definition parse_digits :: "string \<Rightarrow> (nat \<times> string) option" where
  "parse_digits cs =
     (case cs of
        [] \<Rightarrow> None
      | c # r \<Rightarrow>
          if c = CHR ''0'' then Some (0, r)
          else if is_digit c then Some (dec_val (takeWhile is_digit cs), dropWhile is_digit cs)
          else None)"

definition parse_number :: "string \<Rightarrow> (jsval \<times> string) option" where
  "parse_number cs =
     (case (case cs of
              [] \<Rightarrow> None
            | c # r \<Rightarrow>
                if c = CHR ''-'' then map_option (\<lambda>(n, r'). (- int n, r')) (parse_digits r)
                else map_option (\<lambda>(n, r'). (int n, r')) (parse_digits cs)) of
        None \<Rightarrow> None
      | Some (i, r) \<Rightarrow>
          (case r of
             [] \<Rightarrow> Some (JNumber (Finite i), r)
           | d # r' \<Rightarrow>
               if d = CHR ''.'' \<or> d = CHR ''e'' \<or> d = CHR ''E'' then None
               else Some (JNumber (Finite i), r)))"

text \<open>The literal \<open>w\<close> at the head of the text.\<close>

definition parse_literal :: "string \<Rightarrow> jsval \<Rightarrow> string \<Rightarrow> (jsval \<times> string) option" where
  "parse_literal w v cs = (if take (length w) cs = w then Some (v, drop (length w) cs) else None)"

text \<open>
  How the host orders the own properties of an ordinary object: array indices first, in
  ascending numeric order, then the other keys in the order of their creation. Defining a
  property that exists replaces its value where it stands.
\<close>

definition is_array_index :: "string \<Rightarrow> bool" where
  "is_array_index k =
     (k \<noteq> [] \<and> list_all is_digit k \<and> toString_radix 10 (dec_val k) = k \<and>
      int (dec_val k) < 4294967295)"

fun insert_index :: "props \<Rightarrow> string \<Rightarrow> jsval \<Rightarrow> props" where
  "insert_index [] k v = [(k, v)]"
| "insert_index ((k', v') # ps) k v =
     (if is_array_index k' \<and> dec_val k' < dec_val k then (k', v') # insert_index ps k v
      else (k, v) # (k', v') # ps)"

definition add_property :: "props \<Rightarrow> string \<Rightarrow> jsval \<Rightarrow> props" where
  "add_property own k v =
     (if k \<in> set (map fst own) then map (\<lambda>p. if fst p = k then (k, v) else p) own
      else if is_array_index k then insert_index own k v
      else own @ [(k, v)])"

fun parse_value :: "nat \<Rightarrow> string \<Rightarrow> (jsval \<times> string) option"
  and parse_elements :: "nat \<Rightarrow> jsval list \<Rightarrow> string \<Rightarrow> (jsval list \<times> string) option"
  and parse_members :: "nat \<Rightarrow> props \<Rightarrow> string \<Rightarrow> (props \<times> string) option"
where
  "parse_value 0 cs = None"
| "parse_value (Suc n) cs =
     (case skip_ws cs of
        [] \<Rightarrow> None
      | c # r \<Rightarrow>
          if c = CHR ''{'' then
            (case skip_ws r of
               [] \<Rightarrow> None
             | c1 # r1 \<Rightarrow>
                 if c1 = CHR ''}'' then Some (JObject [] [], r1)
                 else map_option (\<lambda>(ps, r2). (JObject ps [], r2)) (parse_members n [] r))
          else if c = CHR ''['' then
            (case skip_ws r of
               [] \<Rightarrow> None
             | c1 # r1 \<Rightarrow>
                 if c1 = CHR '']'' then Some (JArray [], r1)
                 else map_option (\<lambda>(xs, r2). (JArray xs, r2)) (parse_elements n [] r))
          else if c = dquote then map_option (\<lambda>(s, r1). (JString s, r1)) (parse_chars r)
          else if c = CHR ''t'' then parse_literal ''true'' (JBoolean True) (c # r)
          else if c = CHR ''f'' then parse_literal ''false'' (JBoolean False) (c # r)
          else if c = CHR ''n'' then parse_literal ''null'' JNull (c # r)
          else parse_number (c # r))"
| "parse_elements 0 acc cs = None"
| "parse_elements (Suc n) acc cs =
     (case parse_value n cs of
        None \<Rightarrow> None
      | Some (v, r) \<Rightarrow>
          (case skip_ws r of
             [] \<Rightarrow> None
           | c # r1 \<Rightarrow>
               if c = CHR '','' then parse_elements n (acc @ [v]) r1
               else if c = CHR '']'' then Some (acc @ [v], r1)
               else None))"
| "parse_members 0 acc cs = None"
| "parse_members (Suc n) acc cs =
     (case skip_ws cs of
        [] \<Rightarrow> None
      | q # r \<Rightarrow>
          if q = dquote then
            (case parse_chars r of
               None \<Rightarrow> None
             | Some (k, r1) \<Rightarrow>
                 (case skip_ws r1 of
                    [] \<Rightarrow> None
                  | c # r2 \<Rightarrow>
                      if c = CHR '':'' then
                        (case parse_value n r2 of
                           None \<Rightarrow> None
                         | Some (v, r3) \<Rightarrow>
                             (case skip_ws r3 of
                                [] \<Rightarrow> None
                              | d # r4 \<Rightarrow>
                                  if d = CHR '','' then parse_members n (add_property acc k v) r4
                                  else if d = CHR ''}'' then Some (add_property acc k v, r4)
                                  else None))
                      else None))
          else None)"

definition parse_json :: "string \<Rightarrow> jsval option" where
  "parse_json text =
     (case parse_value (Suc (length text)) text of
        None \<Rightarrow> None
      | Some (v, r) \<Rightarrow> if skip_ws r = [] then Some v else None)"

text \<open>
  \<^verbatim>\<open>JSON.parse(text, reviver)\<close>: a syntax error is thrown before the reviver is looked at.
  The reviver is modelled by what the host's walk over the parsed value with it returns, or
  throws; \<open>None\<close> is a call without one.
\<close>

definition JSON_parse :: "string \<Rightarrow> (jsval \<Rightarrow> exn + jsval) option \<Rightarrow> exn + jsval" where
  "JSON_parse text reviver =
     (case parse_json text of
        None \<Rightarrow> Inl SyntaxError
      | Some v \<Rightarrow> (case reviver of None \<Rightarrow> Inr v | Some walk \<Rightarrow> walk v))"

section \<open>The claims' own words\<close>

text \<open>The escape of one character as the specification words it; \<open>plain_char\<close> is a
  character the specification leaves alone.\<close>

definition hex_digit :: "nat \<Rightarrow> char" where
  "hex_digit n = (if n < 10 then char_of (48 + n) else char_of (87 + n))"

definition plain_char :: "char \<Rightarrow> bool" where
  "plain_char c = (0x20 \<le> (of_char c :: nat) \<and> c \<noteq> dquote \<and> c \<noteq> backslash)"

definition escape_spec :: "char \<Rightarrow> string" where
  "escape_spec c =
     (if c = CHR 0x08 then [backslash, CHR ''b'']
      else if c = CHR 0x09 then [backslash, CHR ''t'']
      else if c = CHR 0x0A then [backslash, CHR ''n'']
      else if c = CHR 0x0C then [backslash, CHR ''f'']
      else if c = CHR 0x0D then [backslash, CHR ''r'']
      else if c = dquote then [backslash, dquote]
      else if c = backslash then [backslash, backslash]
      else if (of_char c :: nat) \<le> 0x1F
        then [backslash, CHR ''u'', CHR ''0'', CHR ''0'',
              hex_digit (of_char c div 16), hex_digit (of_char c mod 16)]
      else [c])"

text \<open>An instance as the class creates it, on a host without and with a native JSON object.\<close>

definition instance0 :: JSONFormat where
  "instance0 =
     \<lparr>indent = ''    '', space = '' '', newline = [CHR 0x0A], level = 0, pretty = False,
      nativeJSON = False, keepData = False, data = JNull\<rparr>"

definition instance1 :: JSONFormat where
  "instance1 = instance0\<lparr>nativeJSON := True\<rparr>"


text \<open>The call \<^verbatim>\<open>this.serialize[type].apply(this, [value])\<close> of \<^verbatim>\<open>write\<close>, by itself.\<close>

definition apply_serializer :: "jsval \<Rightarrow> JSONFormat \<Rightarrow> (exn + string) \<times> JSONFormat" where
  "apply_serializer v this =
     (case v of
        JString s \<Rightarrow> (Inr (serialize_string s), this)
      | JNumber n \<Rightarrow> (Inr (serialize_number n), this)
      | JBoolean b \<Rightarrow> (Inr (serialize_boolean b), this)
      | _ \<Rightarrow> serialize_object v this)"



text \<open>The text the host serializer gives a value inside an array, and a member of an object.\<close>

definition text_of :: "jsval \<Rightarrow> string" where
  "text_of v = (case SerializeJSONProperty v of None \<Rightarrow> ''null'' | Some s \<Rightarrow> s)"

definition member_text :: "string \<times> jsval \<Rightarrow> string" where
  "member_text p = QuoteJSONString (fst p) @ '':'' @ text_of (snd p)"


subsection \<open>The round trip\<close>



text \<open>The order in which the host enumerates properties defined one after the other, and the
  lists that are in that order already (which implies distinct keys).\<close>

definition define_all :: "props \<Rightarrow> props" where
  "define_all ps = foldl (\<lambda>acc p. add_property acc (fst p) (snd p)) [] ps"

definition enum_ordered :: "props \<Rightarrow> bool" where
  "enum_ordered own = (define_all own = own)"

text \<open>The values of the six categories: no undefined and no function anywhere; an object
  inherits nothing enumerable and lists its own properties in the host's order.\<close>

fun json_data :: "jsval \<Rightarrow> bool" where
  "json_data (JArray xs) = list_all json_data xs"
| "json_data (JObject own inherited) =
     (inherited = [] \<and> enum_ordered own \<and> list_all (\<lambda>p. json_data (snd p)) own)"
| "json_data JUndefined = False"
| "json_data JFunction = False"
| "json_data _ = True"



definition value_head :: "char \<Rightarrow> bool" where
  "value_head c = (c = CHR ''{'' \<or> c = CHR ''['' \<or> c = dquote \<or> c = CHR ''t'' \<or> c = CHR ''f'' \<or>
     c = CHR ''n'' \<or> c = CHR ''-'' \<or> is_digit c)"



section \<open>Basic facts\<close>

lemma typeof_simps [simp]:
  "typeof JUndefined = ''undefined''" "typeof JNull = ''object''"
  "typeof (JBoolean b) = ''boolean''" "typeof (JNumber n) = ''number''"
  "typeof (JString s) = ''string''" "typeof JFunction = ''function''"
  "typeof (JDate d) = ''object''" "typeof (JArray xs) = ''object''"
  "typeof (JObject own inherited) = ''object''"
  by (simp_all add: typeof_def)

lemma supported_iff: "typeof v \<in> set serialize_keys \<longleftrightarrow> v \<noteq> JUndefined \<and> v \<noteq> JFunction"
  by (cases v) (simp_all add: serialize_keys_def)

subsection \<open>The string serializer against the specification's escape\<close>

lemma digit_char_hex_all: "\<forall>k \<in> set [0..<16]. digit_char k = hex_digit k"
  by code_simp

lemma digit_char_hex: "k < 16 \<Longrightarrow> digit_char k = hex_digit k"
  using digit_char_hex_all by simp

lemma toString_radix_digit: "n < r \<Longrightarrow> toString_radix r n = [digit_char n]"
  by (simp add: toString_radix.simps)

lemma offending_iff: "offending c \<longleftrightarrow> \<not> plain_char c"
  by (auto simp: offending_def plain_char_def)

lemma replacement_spec: "offending c \<Longrightarrow> replacement c = escape_spec c"
proof (cases "m c")
  case None
  assume "offending c"
  with None have low: "(of_char c :: nat) \<le> 0x1F"
    by (auto simp: offending_def m_def split: if_splits)
  then have "(of_char c :: nat) div 16 < 16" "(of_char c :: nat) mod 16 < 16"
    by simp_all
  then have "toString_radix 16 (of_char c div 16) = [hex_digit (of_char c div 16)]"
    "toString_radix 16 (of_char c mod 16) = [hex_digit (of_char c mod 16)]"
    by (simp_all add: toString_radix_digit digit_char_hex)
  with None low show ?thesis
    by (auto simp: replacement_def escape_spec_def m_def Let_def split: if_splits)
next
  case (Some e)
  then show ?thesis
    by (simp add: replacement_def escape_spec_def m_def dquote_def backslash_def split: if_splits)
qed

lemma escape_spec_plain: "plain_char c \<Longrightarrow> escape_spec c = [c]"
  by (auto simp: plain_char_def escape_spec_def dquote_def backslash_def)

lemma step_spec: "(if offending c then replacement c else [c]) = escape_spec c"
  by (simp add: replacement_spec escape_spec_plain offending_iff)

lemma list_ex_offending: "list_ex offending s \<longleftrightarrow> \<not> list_all plain_char s"
  by (induction s) (simp_all add: offending_iff)

lemma serialize_string_escape:
  "serialize_string s =
     (if list_all plain_char s then [dquote] @ s @ [dquote]
      else [dquote] @ concat (map escape_spec s) @ [dquote])"
  by (simp add: serialize_string_def list_ex_offending step_spec)

subsection \<open>The custom path against the host serializer\<close>





















subsection \<open>The two paths of write\<close>


lemma write_json_native:
  "typeof v \<in> set serialize_keys \<Longrightarrow> nativeJSON t \<Longrightarrow>
     write_json v False t = (JSON_stringify v, t\<lparr>pretty := False\<rparr>)"
  by (simp add: write_json.simps)

lemma write_json_custom:
  "typeof v \<in> set serialize_keys \<Longrightarrow> p \<or> \<not> nativeJSON t \<Longrightarrow>
     write_json v p t =
       (case apply_serializer v (t\<lparr>pretty := p\<rparr>) of
          (Inr s, t2) \<Rightarrow> (Str s, t2)
        | (Inl e, t2) \<Rightarrow> (Null, t2))"
  by (auto simp: write_json.simps apply_serializer_def Let_def)







subsection \<open>A Date never has the same text on both paths\<close>

lemma toString_radix_last:
  "\<exists>ys. toString_radix 10 n = ys @ [digit_char (n mod 10)]"
  by (subst toString_radix.simps) auto

lemma digit_not_Z_all: "\<forall>k \<in> set [0..<10]. digit_char k \<noteq> CHR ''Z''"
  by code_simp

lemma digit_not_Z: "digit_char (n mod 10) \<noteq> CHR ''Z''"
  using digit_not_Z_all by simp

lemma to_String_last: "\<exists>ys k. to_String (Finite i) = ys @ [digit_char (k mod 10)]"
proof (cases "i < 0")
  case True
  obtain ys where "toString_radix 10 (nat (- i)) = ys @ [digit_char (nat (- i) mod 10)]"
    using toString_radix_last by blast
  with True have "to_String (Finite i) = (''-'' @ ys) @ [digit_char (nat (- i) mod 10)]"
    by (simp add: to_String_def)
  then show ?thesis by blast
next
  case False
  obtain ys where "toString_radix 10 (nat i) = ys @ [digit_char (nat i mod 10)]"
    using toString_radix_last by blast
  with False have "to_String (Finite i) = ys @ [digit_char (nat i mod 10)]"
    by (simp add: to_String_def)
  then show ?thesis by blast
qed

lemma format_last: "\<exists>ys k. format (Finite i) = ys @ [digit_char (k mod 10)]"
proof -
  obtain ys k where e: "to_String (Finite i) = ys @ [digit_char (k mod 10)]"
    using to_String_last by blast
  show ?thesis
  proof (cases "i < 10")
    case True
    with e have "format (Finite i) = (''0'' @ ys) @ [digit_char (k mod 10)]"
      by (simp add: format_def)
    then show ?thesis by blast
  next
    case False
    with e have "format (Finite i) = ys @ [digit_char (k mod 10)]"
      by (simp add: format_def)
    then show ?thesis by blast
  qed
qed

lemma serialize_date_end:
  "\<exists>ys k. serialize_date (Some d) = ys @ [digit_char (k mod 10), dquote]"
proof -
  obtain ys k where "format (Finite (getSeconds d)) = ys @ [digit_char (k mod 10)]"
    using format_last by blast
  then have "serialize_date (Some d) =
      ([dquote] @ to_String (getter getFullYear (Some d)) @ ''-'' @
       format (js_plus (getter getMonth (Some d)) (Finite 1)) @ ''-'' @
       format (getter getDate (Some d)) @ ''T'' @
       format (getter getHours (Some d)) @ '':'' @
       format (getter getMinutes (Some d)) @ '':'' @ ys) @ [digit_char (k mod 10), dquote]"
    by (simp add: serialize_date_def getter_def)
  then show ?thesis by blast
qed

lemma native_date_end:
  "\<exists>ys. JSON_stringify (JDate (Some d)) = Str (ys @ [CHR ''Z'', dquote])"
proof -
  have "JSON_stringify (JDate (Some d)) =
      Str (([dquote] @ concat (map quote_unit (iso_year (getUTCFullYear d) @ ''-'' @ pad_int 2 (getUTCMonth d + 1) @ ''-'' @
     pad_int 2 (getUTCDate d) @ ''T'' @ pad_int 2 (getUTCHours d) @ '':'' @
     pad_int 2 (getUTCMinutes d) @ '':'' @ pad_int 2 (getUTCSeconds d) @ ''.'' @
     pad_int 3 (getUTCMilliseconds d)))) @ [CHR ''Z'', dquote])"
    by (simp add: JSON_stringify_def QuoteJSONString_def toISOString_def quote_unit_def
        dquote_def backslash_def)
  then show ?thesis by blast
qed

lemma native_date_differs:
  "JSON_stringify (JDate (Some d)) \<noteq> Str (serialize_date (Some d'))"
proof
  assume eq: "JSON_stringify (JDate (Some d)) = Str (serialize_date (Some d'))"
  obtain ys where n: "JSON_stringify (JDate (Some d)) = Str (ys @ [CHR ''Z'', dquote])"
    using native_date_end by blast
  obtain zs k where c: "serialize_date (Some d') = zs @ [digit_char (k mod 10), dquote]"
    using serialize_date_end by blast
  from eq n c have "ys @ [CHR ''Z'', dquote] = zs @ [digit_char (k mod 10), dquote]"
    by simp
  then have "CHR ''Z'' = digit_char (k mod 10)"
    by simp
  with digit_not_Z show False
    by metis
qed

lemma date_paths_differ:
  "fst (write_json (JDate (Some d)) False (this\<lparr>nativeJSON := True\<rparr>))
     \<noteq> fst (write_json (JDate (Some d)) False (this\<lparr>nativeJSON := False\<rparr>))"
  using native_date_differs [of d d]
  by (simp add: write_json_native write_json_custom serialize_keys_def apply_serializer_def)


section \<open>The host parser reads back what the host serializer writes\<close>

subsection \<open>Numbers\<close>

lemma digit_char_all:
  "\<forall>k \<in> set [0..<10]. is_digit (digit_char k) \<and> digit_val (digit_char k) = k \<and>
      (k \<noteq> 0 \<longrightarrow> digit_char k \<noteq> CHR ''0'') \<and> digit_char k \<noteq> CHR ''-''"
  by code_simp

lemma digit_char_facts:
  assumes "k < 10"
  shows "is_digit (digit_char k)" "digit_val (digit_char k) = k"
    "k \<noteq> 0 \<Longrightarrow> digit_char k \<noteq> CHR ''0''" "digit_char k \<noteq> CHR ''-''"
  using digit_char_all assms by simp_all


lemma dec_val_snoc: "dec_val (ds @ [c]) = 10 * dec_val ds + digit_val c"
  by (simp add: dec_val_def)

lemma decimal_digits:
  "list_all is_digit (toString_radix 10 n) \<and> toString_radix 10 n \<noteq> [] \<and>
   dec_val (toString_radix 10 n) = n \<and> (n \<noteq> 0 \<longrightarrow> hd (toString_radix 10 n) \<noteq> CHR ''0'')"
proof (induction n rule: less_induct)
  case (less n)
  show ?case
  proof (cases "n < 10")
    case True
    then have "toString_radix 10 n = [digit_char n]"
      by (simp add: toString_radix.simps)
    with True show ?thesis
      by (simp add: digit_char_facts dec_val_def)
  next
    case False
    then have e: "toString_radix 10 n = toString_radix 10 (n div 10) @ [digit_char (n mod 10)]"
      by (subst toString_radix.simps) simp
    from False have "n div 10 < n" "n div 10 \<noteq> 0" by simp_all
    with less.IH [of "n div 10"] have ih:
      "list_all is_digit (toString_radix 10 (n div 10))" "toString_radix 10 (n div 10) \<noteq> []"
      "dec_val (toString_radix 10 (n div 10)) = n div 10"
      "hd (toString_radix 10 (n div 10)) \<noteq> CHR ''0''"
      by simp_all
    have "n mod 10 < 10" by simp
    with e ih show ?thesis
      by (simp add: dec_val_snoc digit_char_facts)
  qed
qed






lemma number_head:
  "\<exists>c cs. to_String (Finite i) = c # cs \<and> (c = CHR ''-'' \<or> is_digit c)"
proof (cases "i < 0")
  case True
  then show ?thesis by (simp add: to_String_def)
next
  case False
  obtain c cs where cs: "toString_radix 10 (nat i) = c # cs"
    using decimal_digits [of "nat i"] by (cases "toString_radix 10 (nat i)") simp_all
  with False decimal_digits [of "nat i"] show ?thesis
    by (simp add: to_String_def)
qed

subsection \<open>Strings\<close>









subsection \<open>The order of the properties\<close>





subsection \<open>The text of a value\<close>

lemma json_data_toJSON:
  "list_all (\<lambda>p. json_data (snd p)) own \<Longrightarrow> map_of own k \<noteq> Some JFunction"
proof
  assume a: "list_all (\<lambda>p. json_data (snd p)) own" and "map_of own k = Some JFunction"
  then have "(k, JFunction) \<in> set own" by (rule_tac map_of_SomeD)
  with a have "json_data JFunction" by (auto simp: list_all_iff)
  then show False by simp
qed

lemma json_data_Some: "json_data v \<Longrightarrow> SerializeJSONProperty v = Some (text_of v)"
proof (cases v)
  case (JObject own inherited)
  assume "json_data v"
  with JObject json_data_toJSON [of own "''toJSON''"] show ?thesis
    by (auto simp: text_of_def split: option.splits jsval.splits)
qed (auto simp: text_of_def split: option.splits)

lemma text_of_fun:
  "(\<lambda>x. case SerializeJSONProperty x of None \<Rightarrow> ''null'' | Some s \<Rightarrow> s) = text_of"
  by (rule ext) (simp add: text_of_def)

lemma text_of_JArray: "text_of (JArray xs) = ''['' @ join '','' (map text_of xs) @ '']''"
  by (simp add: text_of_def [of "JArray xs"] text_of_fun)

lemma members_json_data:
  "list_all (\<lambda>p. json_data (snd p)) own \<Longrightarrow>
     concat (map (\<lambda>p. case SerializeJSONProperty (snd p) of
                         None \<Rightarrow> []
                       | Some s \<Rightarrow> [QuoteJSONString (fst p) @ '':'' @ s]) own) = map member_text own"
  by (induction own) (simp_all add: json_data_Some member_text_def)

lemma text_of_JObject:
  "json_data (JObject own inherited) \<Longrightarrow>
     text_of (JObject own inherited) = ''{'' @ join '','' (map member_text own) @ ''}''"
proof -
  assume jd: "json_data (JObject own inherited)"
  then have "SerializeJSONProperty (JObject own inherited)
      = Some (''{'' @ join '','' (map member_text own) @ ''}'')"
    using json_data_toJSON [of own "''toJSON''"]
    by (auto simp: members_json_data split: option.splits jsval.splits)
  then show ?thesis
    by (simp add: text_of_def)
qed

lemma value_head_text: "json_data v \<Longrightarrow> \<exists>c cs. text_of v = c # cs \<and> value_head c"
proof (cases v)
  case (JNumber n)
  show ?thesis
  proof (cases n)
    case (Finite i)
    with JNumber number_head [of i] show ?thesis
      by (auto simp: text_of_def isFinite_def value_head_def)
  qed (simp_all add: JNumber text_of_def isFinite_def value_head_def)
next
  case (JDate d)
  then show ?thesis
    by (cases d) (simp_all add: text_of_def QuoteJSONString_def value_head_def)
next
  case (JArray xs)
  then show ?thesis by (simp add: text_of_JArray value_head_def)
next
  case (JObject own inherited)
  assume "json_data v"
  with JObject show ?thesis by (simp add: text_of_JObject value_head_def)
qed (simp_all add: text_of_def QuoteJSONString_def value_head_def)



lemma text_of_nonempty: "json_data v \<Longrightarrow> 0 < length (text_of v)"
  using value_head_text [of v] by auto

subsection \<open>Parsing the text of a value\<close>






















section \<open>The claims\<close>

lemma parse_not_valid: "parse_json ''{not valid json'' = None"
  by (simp add: parse_json_def skip_ws_def is_ws_def dquote_def)

lemma parse_one_element: "parse_json ''[1]'' = Some (JArray [JNumber (Finite 1)])"
  by (simp add: parse_json_def skip_ws_def is_ws_def dquote_def parse_number_def parse_digits_def
      is_digit_def dec_val_def digit_val_def)

text \<open>
  Claim C2. An array element whose encoding is the unserializable outcome is left out, and
  no comma is emitted on its account: commas stand only between emitted elements, and
  skipping the first element produces no leading comma.

  The array serializer decides on the comma by the index (\<^verbatim>\<open>i > 0\<close>), not by whether an
  element was emitted before, as the object serializer does with \<^verbatim>\<open>addComma\<close>. On
  \<^verbatim>\<open>[undefined, 1]\<close> the custom path therefore returns \<^verbatim>\<open>[,1]\<close>: the theorem evaluates the
  code there.
\<close>

theorem serialize_array_leading_comma:
  "fst (write_json (JArray [JUndefined, JNumber (Finite 1)]) False (this\<lparr>nativeJSON := False\<rparr>))
     = Str ''[,1]''"
  by (simp add: write_json.simps serialize_array.simps serialize_keys_def serialize_number_def
      isFinite_def to_String_def toString_radix.simps digit_char_def writeNewline_def
      writeIndent_def)

text \<open>
  Claim C3. After a top-level \<^verbatim>\<open>write\<close> the field \<^verbatim>\<open>level\<close> has the value it had before,
  also for values whose serialization raises.

  The object serializer raises \<^verbatim>\<open>level\<close> before its loop and lowers it after; an error
  thrown inside the loop skips the lowering, and \<^verbatim>\<open>write\<close> swallows the error. The theorem
  evaluates the code on \<^verbatim>\<open>{hasOwnProperty: 1}\<close> with pretty printing: the call returns
  \<^verbatim>\<open>null\<close> and leaves \<^verbatim>\<open>level\<close> one higher, on every instance.
\<close>

theorem level_left_raised:
  "write_json (JObject [(''hasOwnProperty'', JNumber (Finite 1))] []) True this
     = (Null, this\<lparr>pretty := True, level := level this + 1\<rparr>)"
  by (simp add: write_json.simps serialize_plain.simps serialize_keys_def for_in_def
      hasOwnProperty_def)

text \<open>
  Claim C5. For every plain object the object serializer visits the own enumerable keys,
  encodes each key and value, skips a pair whose encoding is unserializable and goes on
  with the remaining pairs, with commas only between emitted pairs.

  The own-property test is the method call \<^verbatim>\<open>object.hasOwnProperty(key)\<close>, which an own
  property of that name shadows. On \<^verbatim>\<open>{hasOwnProperty: 1}\<close> the call throws, the serializer
  emits nothing and \<^verbatim>\<open>write\<close> returns \<^verbatim>\<open>null\<close>, where the host serializer returns the
  text of the object: the theorem evaluates both.
\<close>

theorem hasOwnProperty_shadowed:
  \<open>fst (serialize_object (JObject [(''hasOwnProperty'', JNumber (Finite 1))] []) this) = Inl TypeError \<and>
   fst (write_json (JObject [(''hasOwnProperty'', JNumber (Finite 1))] []) True this) = Null \<and>
   JSON_stringify (JObject [(''hasOwnProperty'', JNumber (Finite 1))] []) = Str ''{"hasOwnProperty":1}''\<close>
  by (simp add: write_json.simps serialize_plain.simps serialize_keys_def for_in_def
      hasOwnProperty_def JSON_stringify_def
      QuoteJSONString_def quote_unit_def dquote_def backslash_def isFinite_def to_String_def
      toString_radix.simps digit_char_def)

text \<open>
  Claim C6. The string serializer returns a string that contains no code point below
  0x20, no double quote and no backslash wrapped in double quotes unchanged; otherwise it
  returns the quoted string in which backspace, tab, newline, form feed, carriage return,
  double quote and backslash are replaced by their two-character escapes and every other
  character from 0x00 to 0x1F by \<^verbatim>\<open>\u00XX\<close>, the two lowercase hex digits being
  \<open>code div 16\<close> and \<open>code mod 16\<close>. \<open>escape_spec\<close> is that replacement, written from the
  specification.
\<close>

theorem serialize_string_spec:
  "serialize_string s =
     (if list_all plain_char s then [dquote] @ s @ [dquote]
      else [dquote] @ concat (map escape_spec s) @ [dquote])"
  by (rule serialize_string_escape)

text \<open>
  Claim C7. \<^verbatim>\<open>read\<close> never raises: whatever the host's parser does with the text and the
  filter, \<^verbatim>\<open>read\<close> returns; when the parser throws, it returns \<^verbatim>\<open>undefined\<close>; in
  particular \<^verbatim>\<open>read("{not valid json")\<close> returns \<^verbatim>\<open>undefined\<close>.
\<close>

theorem read_fail_soft:
  "(\<exists>object this1. read P json f this = (Inr object, this1)) \<and>
   (\<forall>e. P json f = Inl e \<longrightarrow> fst (read P json f this) = Inr JUndefined) \<and>
   fst (read JSON_parse ''{not valid json'' r this) = Inr JUndefined"
  by (auto simp: read_def Let_def JSON_parse_def parse_not_valid)

theorem read_fail_soft_witness:
  "JSON_parse ''{not valid json'' None = Inl SyntaxError \<and>
   fst (read JSON_parse ''{not valid json'' None instance1) = Inr JUndefined"
  using read_fail_soft [of JSON_parse "''{not valid json''" None instance1]
  by (simp add: JSON_parse_def parse_not_valid)

text \<open>
  Claim C10. On an instance whose \<^verbatim>\<open>nativeJSON\<close> flag is false, \<^verbatim>\<open>read\<close> returns
  \<^verbatim>\<open>undefined\<close> for every text and every filter, whatever the parser would have made of the
  text: no parsing is attempted and there is no fallback parser.
\<close>

theorem read_without_native:
  "\<not> nativeJSON this \<Longrightarrow>
     read P json f this = (Inr JUndefined, if keepData this then this\<lparr>data := JUndefined\<rparr> else this)"
  by (simp add: read_def)

theorem read_without_native_witness:
  "\<not> nativeJSON instance0 \<and> JSON_parse ''[1]'' None = Inr (JArray [JNumber (Finite 1)]) \<and>
   read JSON_parse ''[1]'' None instance0 = (Inr JUndefined, instance0)"
  using read_without_native [of instance0 JSON_parse "''[1]''" None]
  by (simp add: instance0_def JSON_parse_def parse_one_element)













end
